theory Spec2Isabelle
  imports Main "HOL-Library.Multiset"
begin

section \<open>The to-do service of \<^verbatim>\<open>app/main.py\<close>\<close>

text \<open>
  The service is six FastAPI route handlers over one SQLite table of \<^verbatim>\<open>Task\<close> rows.
  The embedding follows the file top to bottom: the three model classes, the table, the
  statements a handler sends through its session, then each handler, and last the
  validation FastAPI performs on a request before it calls the handler (derived from the
  handler's signature and from the field declarations of the request models).

  The table is a list of rows in storage order (ascending rowid). A handler takes the table
  and returns either an error or its result together with the table after \<^verbatim>\<open>commit\<close>.
  Storage faults (disk, connection, 64-bit limits of the driver) are outside the model.
\<close>

subsection \<open>Model classes\<close>

text \<open>A \<^verbatim>\<open>datetime.date\<close> is its proleptic ordinal; dates compare as their ordinals do.\<close>

type_synonym date = int

text \<open>
  \<^verbatim>\<open>class TaskCreate(BaseModel)\<close>: \<^verbatim>\<open>title: str\<close>,
  \<^verbatim>\<open>completed: Optional[bool] = False\<close>, \<^verbatim>\<open>created_at: Optional[date] = None\<close>.
  \<^verbatim>\<open>None\<close> of an \<^verbatim>\<open>Optional\<close> field is \<open>None\<close> here.
\<close>

record TaskCreate =
  tc_title :: string
  tc_completed :: "bool option"
  tc_created_at :: "date option"

text \<open>\<^verbatim>\<open>class UpdateTask(BaseModel)\<close>: \<^verbatim>\<open>title : str\<close>, \<^verbatim>\<open>completed: bool\<close>, both required.\<close>

record UpdateTask =
  ut_title :: string
  ut_completed :: bool

text \<open>
  \<^verbatim>\<open>class Task(SQLModel, table=True)\<close>. The primary key is \<^verbatim>\<open>Optional[int]\<close> with default
  \<^verbatim>\<open>None\<close>: an object that was never flushed has no id, a stored row always has one.
  The field \<^verbatim>\<open>id\<close> is \<open>id_field\<close> here (\<open>id\<close> is HOL's identity function).
\<close>

record Task =
  id_field :: "int option"
  title :: string
  completed :: bool
  created_at :: date

subsection \<open>Errors\<close>

text \<open>
  What ends a request without a result:
  \<^item> \<open>HTTPException code detail\<close>, raised by the handlers themselves;
  \<^item> \<open>RequestValidationError\<close>, raised by FastAPI while it reads the request, before the
    handler runs (status 422);
  \<^item> \<open>ValidationError\<close>, raised by pydantic inside a handler (\<^verbatim>\<open>Task.from_orm\<close>), and
    \<open>AttributeError\<close>, raised by an attribute access on \<^verbatim>\<open>None\<close>; no handler catches
    them, so the client sees status 500.
\<close>

datatype error =
    HTTPException nat string
  | RequestValidationError
  | ValidationError
  | AttributeError

fun status_code :: "error \<Rightarrow> nat" where
  "status_code (HTTPException code detail) = code"
| "status_code RequestValidationError = 422"
| "status_code ValidationError = 500"
| "status_code AttributeError = 500"

subsection \<open>The table and the statements sent through a session\<close>

type_synonym table = "Task list"

text \<open>
  \<^verbatim>\<open>INSERT\<close> without an id: the column is SQLite's \<^verbatim>\<open>INTEGER PRIMARY KEY\<close> (no
  \<^verbatim>\<open>AUTOINCREMENT\<close>), so the new rowid is 1 in an empty table and one more than the largest
  rowid otherwise.
\<close>

definition next_rowid :: "table \<Rightarrow> int" where
  "next_rowid db =
     (case List.map_filter id_field db of
        [] \<Rightarrow> 1
      | i # rest \<Rightarrow> fold max rest i + 1)"

text \<open>\<^verbatim>\<open>session.add(db_task); session.commit(); session.refresh(db_task)\<close> for a new object.\<close>

definition session_insert :: "Task \<Rightarrow> table \<Rightarrow> Task \<times> table" where
  "session_insert db_task db =
     (let row = db_task\<lparr>id_field := Some (next_rowid db)\<rparr> in (row, db @ [row]))"

text \<open>\<^verbatim>\<open>session.exec(select(Task).where(Task.id == task_id)).first()\<close>\<close>

definition select_where_id :: "int \<Rightarrow> table \<Rightarrow> Task list" where
  "select_where_id task_id db = filter (\<lambda>t. id_field t = Some task_id) db"

definition first :: "'a list \<Rightarrow> 'a option" where
  "first rows = (case rows of [] \<Rightarrow> None | r # _ \<Rightarrow> Some r)"

text \<open>\<^verbatim>\<open>session.get(Task, task_id)\<close>: the row with that primary key, or \<^verbatim>\<open>None\<close>.\<close>

definition session_get :: "table \<Rightarrow> int \<Rightarrow> Task option" where
  "session_get db task_id = find (\<lambda>t. id_field t = Some task_id) db"

text \<open>
  \<^verbatim>\<open>session.add(task); session.commit(); session.refresh(task)\<close> for an object loaded from
  the table. The handlers assign \<^verbatim>\<open>title\<close> and \<^verbatim>\<open>completed\<close> only, so the statement is
  \<^verbatim>\<open>UPDATE task SET title = ?, completed = ? WHERE id = ?\<close> with the object's primary key;
  the refreshed object is the object itself.
\<close>

definition session_update :: "Task \<Rightarrow> table \<Rightarrow> Task \<times> table" where
  "session_update task db =
     (task,
      map (\<lambda>r. if id_field r = id_field task
               then r\<lparr>title := title task, completed := completed task\<rparr> else r) db)"

text \<open>\<^verbatim>\<open>session.delete(task); session.commit()\<close>: \<^verbatim>\<open>DELETE FROM task WHERE id = ?\<close>.\<close>

definition session_delete :: "Task \<Rightarrow> table \<Rightarrow> table" where
  "session_delete task db = filter (\<lambda>r. id_field r \<noteq> id_field task) db"

text \<open>
  \<^verbatim>\<open>ORDER BY created_at\<close> over rows scanned in storage order; rows with equal dates keep
  their storage order. \<^verbatim>\<open>OFFSET n\<close> skips \<open>n\<close> rows and a negative \<open>n\<close> skips none;
  \<^verbatim>\<open>LIMIT n\<close> keeps \<open>n\<close> rows and a negative \<open>n\<close> keeps all (SQLite).
\<close>

definition order_by_created_at :: "Task list \<Rightarrow> Task list" where
  "order_by_created_at rows = sort_key created_at rows"

definition sql_offset :: "int \<Rightarrow> 'a list \<Rightarrow> 'a list" where
  "sql_offset n rows = drop (nat n) rows"

definition sql_limit :: "int \<Rightarrow> 'a list \<Rightarrow> 'a list" where
  "sql_limit n rows = (if n < 0 then rows else take (nat n) rows)"

subsection \<open>Handlers\<close>

text \<open>
  \<^verbatim>\<open>Task.from_orm(task)\<close> validates a new \<^verbatim>\<open>Task\<close> from the attributes of the
  \<^verbatim>\<open>TaskCreate\<close> object. \<^verbatim>\<open>TaskCreate\<close> has no attribute \<^verbatim>\<open>id\<close>, so the id takes its
  default \<^verbatim>\<open>None\<close>. The attributes \<^verbatim>\<open>completed\<close> and \<^verbatim>\<open>created_at\<close> always exist on
  the object, so their values are validated against \<^verbatim>\<open>Task\<close>'s field types \<^verbatim>\<open>bool\<close> and
  \<^verbatim>\<open>date\<close>, neither of which admits \<^verbatim>\<open>None\<close>: a \<^verbatim>\<open>None\<close> there raises pydantic's
  \<^verbatim>\<open>ValidationError\<close>. The defaults of \<^verbatim>\<open>Task\<close> (\<^verbatim>\<open>False\<close>, \<^verbatim>\<open>date.today\<close>) apply to
  a missing attribute only, which \<^verbatim>\<open>from_orm\<close> never meets for these two fields.
\<close>

definition from_orm :: "TaskCreate \<Rightarrow> error + Task" where
  "from_orm task =
     (case tc_completed task of
        None \<Rightarrow> Inl ValidationError
      | Some c \<Rightarrow>
          (case tc_created_at task of
             None \<Rightarrow> Inl ValidationError
           | Some d \<Rightarrow>
               Inr \<lparr>id_field = None, title = tc_title task, completed = c, created_at = d\<rparr>))"

definition create_task :: "TaskCreate \<Rightarrow> table \<Rightarrow> error + Task \<times> table" where
  "create_task task db =
     (case from_orm task of
        Inl e \<Rightarrow> Inl e
      | Inr db_task \<Rightarrow> Inr (session_insert db_task db))"

text \<open>
  \<^verbatim>\<open>if status is True\<close> and \<^verbatim>\<open>if status is False\<close> each add a \<^verbatim>\<open>WHERE\<close> clause; with
  \<^verbatim>\<open>status = None\<close> neither does.
\<close>

definition get_tasks :: "table \<Rightarrow> int \<Rightarrow> int \<Rightarrow> bool option \<Rightarrow> Task list" where
  "get_tasks db offset limit status =
     (let query = db;
          query = (if status = Some True then filter (\<lambda>t. completed t = True) query else query);
          query = (if status = Some False then filter (\<lambda>t. completed t = False) query else query)
      in sql_limit limit (sql_offset offset (order_by_created_at query)))"

definition get_task :: "int \<Rightarrow> table \<Rightarrow> error + Task" where
  "get_task task_id db =
     (case first (select_where_id task_id db) of
        None \<Rightarrow> Inl (HTTPException 404 ''Task not found'')
      | Some task \<Rightarrow> Inr task)"

definition update_task :: "int \<Rightarrow> UpdateTask \<Rightarrow> table \<Rightarrow> error + Task \<times> table" where
  "update_task task_id updated_task db =
     (case session_get db task_id of
        None \<Rightarrow> Inl (HTTPException 404 ''Not Found: Requested task doesn't exist '')
      | Some task \<Rightarrow>
          (let task = task\<lparr>title := ut_title updated_task\<rparr>;
               task = task\<lparr>completed := ut_completed updated_task\<rparr>
           in Inr (session_update task db)))"

text \<open>
  \<^verbatim>\<open>partial_update\<close> takes \<^verbatim>\<open>updated_task : Optional[UpdateTask] = None\<close>. After the
  lookup it reads \<^verbatim>\<open>updated_task.title\<close> with no test of \<^verbatim>\<open>updated_task\<close> itself, which
  raises \<^verbatim>\<open>AttributeError\<close> on \<^verbatim>\<open>None\<close>. The two \<^verbatim>\<open>is not None\<close> tests are on fields of
  a validated \<^verbatim>\<open>UpdateTask\<close>, whose types \<^verbatim>\<open>str\<close> and \<^verbatim>\<open>bool\<close> exclude \<^verbatim>\<open>None\<close>.
\<close>

definition partial_update :: "int \<Rightarrow> table \<Rightarrow> UpdateTask option \<Rightarrow> error + Task \<times> table" where
  "partial_update task_id db updated_task =
     (case session_get db task_id of
        None \<Rightarrow> Inl (HTTPException 404 ''Not Found: Requested task doesn't exist'')
      | Some task \<Rightarrow>
          (case updated_task of
             None \<Rightarrow> Inl AttributeError
           | Some u \<Rightarrow>
               (let task = (if Some (ut_title u) \<noteq> None then task\<lparr>title := ut_title u\<rparr> else task);
                    task = (if Some (ut_completed u) \<noteq> None
                            then task\<lparr>completed := ut_completed u\<rparr> else task)
                in Inr (session_update task db))))"

text \<open>\<^verbatim>\<open>delete_task\<close> returns the Python set \<^verbatim>\<open>{"task deleted", True}\<close>.\<close>

datatype py_atom = PyStr string | PyBool bool

definition delete_task :: "int \<Rightarrow> table \<Rightarrow> error + py_atom set \<times> table" where
  "delete_task task_id db =
     (case first (select_where_id task_id db) of
        None \<Rightarrow> Inl (HTTPException 404 ''Not Found: Requested task doesn't exist'')
      | Some task \<Rightarrow> Inr ({PyStr ''task deleted'', PyBool True}, session_delete task db))"

subsection \<open>Requests as FastAPI reads them\<close>

text \<open>
  A field of a JSON body is absent, \<^verbatim>\<open>null\<close>, or a value of the declared type. A required
  field (no default) must be present; a field whose type is not \<^verbatim>\<open>Optional\<close> rejects
  \<^verbatim>\<open>null\<close>; an absent field with a default takes the default.
\<close>

datatype 'a json_field = Absent | Null | Val 'a

record TaskCreate_body =
  b_title :: "string json_field"
  b_completed :: "bool json_field"
  b_created_at :: "date json_field"

record UpdateTask_body =
  u_title :: "string json_field"
  u_completed :: "bool json_field"

definition parse_TaskCreate :: "TaskCreate_body \<Rightarrow> error + TaskCreate" where
  "parse_TaskCreate body =
     (case b_title body of
        Val s \<Rightarrow>
          Inr \<lparr>tc_title = s,
               tc_completed =
                 (case b_completed body of Absent \<Rightarrow> Some False | Null \<Rightarrow> None | Val c \<Rightarrow> Some c),
               tc_created_at =
                 (case b_created_at body of Absent \<Rightarrow> None | Null \<Rightarrow> None | Val d \<Rightarrow> Some d)\<rparr>
      | _ \<Rightarrow> Inl RequestValidationError)"

definition parse_UpdateTask :: "UpdateTask_body \<Rightarrow> error + UpdateTask" where
  "parse_UpdateTask body =
     (case (u_title body, u_completed body) of
        (Val s, Val c) \<Rightarrow> Inr \<lparr>ut_title = s, ut_completed = c\<rparr>
      | _ \<Rightarrow> Inl RequestValidationError)"

text \<open>\<^verbatim>\<open>@app.post("/tasks/")\<close>\<close>

definition app_post_tasks :: "TaskCreate_body \<Rightarrow> table \<Rightarrow> error + Task \<times> table" where
  "app_post_tasks body db =
     (case parse_TaskCreate body of
        Inl e \<Rightarrow> Inl e
      | Inr task \<Rightarrow> create_task task db)"

text \<open>\<^verbatim>\<open>@app.get("/tasks")\<close> with \<^verbatim>\<open>limit: Annotated[int, Query(le=20)] = 20\<close>\<close>

definition app_get_tasks :: "table \<Rightarrow> int \<Rightarrow> int \<Rightarrow> bool option \<Rightarrow> error + Task list" where
  "app_get_tasks db offset limit status =
     (if limit \<le> 20 then Inr (get_tasks db offset limit status)
      else Inl RequestValidationError)"

text \<open>\<^verbatim>\<open>@app.put("/tasks/{task_id}")\<close>\<close>

definition app_put_task :: "int \<Rightarrow> UpdateTask_body \<Rightarrow> table \<Rightarrow> error + Task \<times> table" where
  "app_put_task task_id body db =
     (case parse_UpdateTask body of
        Inl e \<Rightarrow> Inl e
      | Inr updated_task \<Rightarrow> update_task task_id updated_task db)"

text \<open>\<^verbatim>\<open>@app.patch("/tasks/{task_id}")\<close>: the body is optional; without one the handler gets
  \<^verbatim>\<open>None\<close>.\<close>

definition app_patch_task ::
  "int \<Rightarrow> table \<Rightarrow> UpdateTask_body option \<Rightarrow> error + Task \<times> table" where
  "app_patch_task task_id db body =
     (case body of
        None \<Rightarrow> partial_update task_id db None
      | Some b \<Rightarrow>
          (case parse_UpdateTask b of
             Inl e \<Rightarrow> Inl e
           | Inr updated_task \<Rightarrow> partial_update task_id db (Some updated_task)))"

text \<open>
  One request of the six, and the table it leaves behind. A request that ends in an error
  never reached \<^verbatim>\<open>commit\<close>, so it leaves the table as it was; the two \<^verbatim>\<open>GET\<close> routes
  send no statement that writes.
\<close>

datatype request =
    PostTasks TaskCreate_body
  | GetTasks int int "bool option"
  | GetTask int
  | PutTask int UpdateTask_body
  | PatchTask int "UpdateTask_body option"
  | DeleteTask int

fun table_after :: "request \<Rightarrow> table \<Rightarrow> table" where
  "table_after (PostTasks body) db =
     (case app_post_tasks body db of Inl e \<Rightarrow> db | Inr (task, db') \<Rightarrow> db')"
| "table_after (GetTasks offset limit status) db = db"
| "table_after (GetTask task_id) db = db"
| "table_after (PutTask task_id body) db =
     (case app_put_task task_id body db of Inl e \<Rightarrow> db | Inr (task, db') \<Rightarrow> db')"
| "table_after (PatchTask task_id body) db =
     (case app_patch_task task_id db body of Inl e \<Rightarrow> db | Inr (task, db') \<Rightarrow> db')"
| "table_after (DeleteTask task_id) db =
     (case delete_task task_id db of Inl e \<Rightarrow> db | Inr (confirmation, db') \<Rightarrow> db')"

text \<open>The title a request's body carries, when it has a body with a title.\<close>

fun payload_title :: "request \<Rightarrow> string option" where
  "payload_title (PostTasks body) = (case b_title body of Val s \<Rightarrow> Some s | _ \<Rightarrow> None)"
| "payload_title (PutTask task_id body) = (case u_title body of Val s \<Rightarrow> Some s | _ \<Rightarrow> None)"
| "payload_title (PatchTask task_id (Some body)) =
     (case u_title body of Val s \<Rightarrow> Some s | _ \<Rightarrow> None)"
| "payload_title _ = None"

section \<open>Properties\<close>

subsection \<open>Lookups and row ids\<close>

lemma first_filter_find: "first (filter P rows) = find P rows"
  by (induction rows) (simp_all add: first_def)

lemma first_select_where_id:
  "first (select_where_id task_id db) = find (\<lambda>t. id_field t = Some task_id) db"
  by (simp add: select_where_id_def first_filter_find)

lemma find_id_None: "find (\<lambda>t. id_field t = Some i) db = None \<longleftrightarrow> Some i \<notin> id_field ` set db"
  by (auto simp: find_None_iff image_iff)

lemma find_id_Some:
  "find (\<lambda>t. id_field t = Some i) db = Some task \<Longrightarrow> task \<in> set db \<and> id_field task = Some i"
  by (auto simp: find_Some_iff)

lemma find_append_fresh:
  "find P xs = None \<Longrightarrow> P y \<Longrightarrow> find P (xs @ [y]) = Some y"
  by (induction xs) (auto split: if_splits)

lemma fold_max_ge: "x \<in> set (j # rest) \<Longrightarrow> x \<le> fold max rest (j::int)"
proof -
  assume "x \<in> set (j # rest)"
  then have "x \<le> Max (set (j # rest))"
    by (intro Max_ge) simp_all
  then show ?thesis
    by (simp only: Max.set_eq_fold)
qed

lemma set_map_filter_ids:
  "set (List.map_filter id_field db) = {i. Some i \<in> id_field ` set db}"
  by (induction db) (auto split: option.splits)

text \<open>The rowid of the next insert is larger than every id in the table.\<close>

lemma next_rowid_greater:
  assumes "Some i \<in> id_field ` set db"
  shows "i < next_rowid db"
proof -
  from assms have mem: "i \<in> set (List.map_filter id_field db)"
    by (simp add: set_map_filter_ids)
  then obtain j rest where ids: "List.map_filter id_field db = j # rest"
    by (cases "List.map_filter id_field db") auto
  with mem have "i \<le> fold max rest j"
    using fold_max_ge by metis
  with ids show ?thesis
    by (simp add: next_rowid_def)
qed

lemma next_rowid_positive:
  assumes "\<forall>i. Some i \<in> id_field ` set db \<longrightarrow> 0 < i"
  shows "0 < next_rowid db"
proof (cases "List.map_filter id_field db")
  case Nil
  then show ?thesis by (simp add: next_rowid_def)
next
  case (Cons j rest)
  then have "j \<in> set (List.map_filter id_field db)" by simp
  then have "Some j \<in> id_field ` set db"
    by (simp add: set_map_filter_ids)
  with assms next_rowid_greater [of j db] show ?thesis by force
qed

subsection \<open>Create\<close>

text \<open>
  With \<^verbatim>\<open>completed\<close> and \<^verbatim>\<open>created_at\<close> both given in the body, \<^verbatim>\<open>POST /tasks/\<close> stores
  one new row that carries the body's values and the next rowid, which no stored row has
  and which is positive when the stored ids are.
\<close>

lemma create_full_payload_persists:
  "\<exists>i. app_post_tasks \<lparr>b_title = Val s, b_completed = Val c, b_created_at = Val d\<rparr> db
          = Inr (\<lparr>id_field = Some i, title = s, completed = c, created_at = d\<rparr>,
                 db @ [\<lparr>id_field = Some i, title = s, completed = c, created_at = d\<rparr>])
       \<and> Some i \<notin> id_field ` set db
       \<and> ((\<forall>j. Some j \<in> id_field ` set db \<longrightarrow> 0 < j) \<longrightarrow> 0 < i)"
proof -
  have "app_post_tasks \<lparr>b_title = Val s, b_completed = Val c, b_created_at = Val d\<rparr> db
          = Inr (\<lparr>id_field = Some (next_rowid db), title = s, completed = c, created_at = d\<rparr>,
                 db @ [\<lparr>id_field = Some (next_rowid db), title = s, completed = c,
                        created_at = d\<rparr>])"
    by (simp add: app_post_tasks_def parse_TaskCreate_def create_task_def from_orm_def
        session_insert_def Let_def)
  moreover have "Some (next_rowid db) \<notin> id_field ` set db"
    using next_rowid_greater [of "next_rowid db" db] by auto
  moreover have "(\<forall>j. Some j \<in> id_field ` set db \<longrightarrow> 0 < j) \<longrightarrow> 0 < next_rowid db"
    using next_rowid_positive by blast
  ultimately show ?thesis by blast
qed

text \<open>
  C1 (the code departs from the claim). A \<^verbatim>\<open>POST /tasks/\<close> whose body gives a title only
  passes request validation as \<^verbatim>\<open>TaskCreate(title, completed=False, created_at=None)\<close>;
  \<^verbatim>\<open>Task.from_orm\<close> then meets \<^verbatim>\<open>created_at = None\<close> for a field of type \<^verbatim>\<open>date\<close> and
  raises \<^verbatim>\<open>ValidationError\<close>. No task is returned and none is stored, whatever the title
  and whatever the table holds.
\<close>

theorem create_title_only_fails:
  "app_post_tasks \<lparr>b_title = Val s, b_completed = Absent, b_created_at = Absent\<rparr> db
     = Inl ValidationError
   \<and> table_after (PostTasks \<lparr>b_title = Val s, b_completed = Absent, b_created_at = Absent\<rparr>) db
     = db"
  by (simp add: app_post_tasks_def parse_TaskCreate_def create_task_def from_orm_def)

text \<open>
  Whenever \<^verbatim>\<open>POST /tasks/\<close> does return a task, that task has an id, and
  \<^verbatim>\<open>GET /tasks/{id}\<close> with that id on the table the create left behind returns the very
  same task: same id, title, completed and created_at.
\<close>

lemma create_returned_then_get:
  assumes "app_post_tasks body db = Inr (task, db')"
  shows "\<exists>i. id_field task = Some i \<and> get_task i db' = Inr task"
proof -
  from assms obtain db_task where
    ins: "session_insert db_task db = (task, db')"
    by (auto simp: app_post_tasks_def create_task_def split: sum.splits)
  define i where "i = next_rowid db"
  from ins have task: "task = db_task\<lparr>id_field := Some i\<rparr>" and db': "db' = db @ [task]"
    by (auto simp: session_insert_def Let_def i_def)
  have "Some i \<notin> id_field ` set db"
    using next_rowid_greater [of i db] by (auto simp: i_def)
  then have "find (\<lambda>t. id_field t = Some i) db = None"
    by (simp add: find_id_None)
  moreover have "id_field task = Some i"
    by (simp add: task)
  ultimately have "find (\<lambda>t. id_field t = Some i) db' = Some task"
    unfolding db' by (intro find_append_fresh)
  then have "get_task i db' = Inr task"
    by (simp add: get_task_def first_select_where_id)
  with \<open>id_field task = Some i\<close> show ?thesis by blast
qed

text \<open>
  \<^verbatim>\<open>POST /tasks/\<close> returns a task exactly for a body with a title, a \<^verbatim>\<open>completed\<close> that
  is not \<^verbatim>\<open>null\<close> and a \<^verbatim>\<open>created_at\<close> date.
\<close>

lemma app_post_tasks_returns_iff:
  "(\<exists>task db'. app_post_tasks body db = Inr (task, db'))
     \<longleftrightarrow> (\<exists>s. b_title body = Val s) \<and> b_completed body \<noteq> Null
         \<and> (\<exists>d. b_created_at body = Val d)"
  by (auto simp: app_post_tasks_def parse_TaskCreate_def create_task_def from_orm_def
      session_insert_def Let_def split: json_field.splits)

text \<open>
  C9 (the code departs from the claim). The round trip is claimed for every valid create
  payload. A body that gives a title only is valid: it passes request validation as
  \<^verbatim>\<open>TaskCreate(title, completed=False, created_at=None)\<close>. On it \<^verbatim>\<open>POST /tasks/\<close> returns
  no task, for any title and any table, because \<^verbatim>\<open>Task.from_orm\<close> raises
  \<^verbatim>\<open>ValidationError\<close> (status 500); the table is left as it was, so there is no id to
  look up and no task that a \<^verbatim>\<open>GET /tasks/{id}\<close> could return as the created one.
\<close>

theorem roundtrip_breaks_on_title_only:
  "parse_TaskCreate \<lparr>b_title = Val s, b_completed = Absent, b_created_at = Absent\<rparr>
     = Inr \<lparr>tc_title = s, tc_completed = Some False, tc_created_at = None\<rparr>
   \<and> (\<forall>task db'.
         app_post_tasks \<lparr>b_title = Val s, b_completed = Absent, b_created_at = Absent\<rparr> db
           \<noteq> Inr (task, db'))
   \<and> status_code
         (projl (app_post_tasks
                   \<lparr>b_title = Val s, b_completed = Absent, b_created_at = Absent\<rparr> db))
       = 500
   \<and> table_after (PostTasks \<lparr>b_title = Val s, b_completed = Absent, b_created_at = Absent\<rparr>) db
       = db"
  by (simp add: app_post_tasks_def parse_TaskCreate_def create_task_def from_orm_def)

subsection \<open>List\<close>

text \<open>
  C5. For every table and every \<^verbatim>\<open>GET /tasks\<close> request that passes validation there is a
  complete listing: the stored tasks whose \<open>completed\<close> equals \<open>status\<close> (all stored tasks
  when \<open>status\<close> is omitted), each as often as it is stored, in non-decreasing order of
  \<open>created_at\<close>. The answer is the window of that listing that first skips \<open>offset\<close> rows
  and then keeps at most \<open>limit\<close> rows (a negative offset skips none, a negative limit
  keeps all). So the answer is itself ordered by \<open>created_at\<close> and holds only stored tasks
  that match the filter.
\<close>

theorem get_tasks_listing:
  assumes "limit \<le> 20"
  shows "\<exists>listing rows.
           mset listing
             = filter_mset (\<lambda>t. case status of None \<Rightarrow> True | Some b \<Rightarrow> completed t = b) (mset db)
         \<and> sorted (map created_at listing)
         \<and> app_get_tasks db offset limit status = Inr rows
         \<and> rows = (if limit < 0 then drop (nat offset) listing
                    else take (nat limit) (drop (nat offset) listing))
         \<and> sorted (map created_at rows)
         \<and> (\<forall>t\<in>set rows.
               t \<in> set db \<and> (case status of None \<Rightarrow> True | Some b \<Rightarrow> completed t = b))"
proof -
  define keep where
    "keep = (\<lambda>t::Task. case status of None \<Rightarrow> True | Some b \<Rightarrow> completed t = b)"
  define listing where "listing = sort_key created_at (filter keep db)"
  define rows where "rows = (if limit < 0 then drop (nat offset) listing
                    else take (nat limit) (drop (nat offset) listing))"
  have query: "(let query = db;
          query = (if status = Some True then filter (\<lambda>t. completed t = True) query else query);
          query = (if status = Some False then filter (\<lambda>t. completed t = False) query else query)
      in query) = filter keep db"
    by (cases status) (auto simp: keep_def Let_def)
  have m: "mset listing = filter_mset keep (mset db)"
    by (simp add: listing_def)
  have s: "sorted (map created_at listing)"
    by (simp add: listing_def)
  have run: "app_get_tasks db offset limit status = Inr rows"
    using assms query
    by (simp add: app_get_tasks_def get_tasks_def order_by_created_at_def sql_limit_def
        sql_offset_def rows_def listing_def Let_def)
  have s': "sorted (map created_at rows)"
  proof -
    have "sorted (drop (nat offset) (map created_at listing))"
      using s by (rule sorted_wrt_drop)
    moreover from this
    have "sorted (take (nat limit) (drop (nat offset) (map created_at listing)))"
      by (rule sorted_wrt_take)
    ultimately show ?thesis
      by (simp add: rows_def take_map drop_map)
  qed
  have "set rows \<subseteq> set listing"
    by (auto simp: rows_def dest: in_set_takeD in_set_dropD)
  then have mem: "\<forall>t\<in>set rows. t \<in> set db \<and> keep t"
    by (auto simp: listing_def)
  from m s run s' mem show ?thesis
    unfolding keep_def rows_def by blast
qed

theorem get_tasks_listing_witness:
  "(2::int) \<le> 20
   \<and> app_get_tasks
      [\<lparr>id_field = Some 1, title = ''buy milk'', completed = False, created_at = 739003\<rparr>,
       \<lparr>id_field = Some 2, title = ''call mum'', completed = True, created_at = 739001\<rparr>,
       \<lparr>id_field = Some 3, title = ''walk dog'', completed = False, created_at = 739002\<rparr>,
       \<lparr>id_field = Some 4, title = ''pay rent'', completed = False, created_at = 739000\<rparr>]
      1 2 (Some False)
     = Inr [\<lparr>id_field = Some 3, title = ''walk dog'', completed = False, created_at = 739002\<rparr>,
            \<lparr>id_field = Some 1, title = ''buy milk'', completed = False, created_at = 739003\<rparr>]"
proof -
  let ?db = "[\<lparr>id_field = Some 1, title = ''buy milk'', completed = False, created_at = 739003\<rparr>,
       \<lparr>id_field = Some 2, title = ''call mum'', completed = True, created_at = 739001\<rparr>,
       \<lparr>id_field = Some 3, title = ''walk dog'', completed = False, created_at = 739002\<rparr>,
       \<lparr>id_field = Some 4, title = ''pay rent'', completed = False, created_at = 739000\<rparr>]"
  have ceiling: "(2::int) \<le> 20" by simp
  from get_tasks_listing [OF ceiling, of "Some False" ?db 1]
  have "\<exists>rows. app_get_tasks ?db 1 2 (Some False) = Inr rows \<and> sorted (map created_at rows)"
    by blast
  moreover have "app_get_tasks ?db 1 2 (Some False)
     = Inr [\<lparr>id_field = Some 3, title = ''walk dog'', completed = False, created_at = 739002\<rparr>,
            \<lparr>id_field = Some 1, title = ''buy milk'', completed = False, created_at = 739003\<rparr>]"
    by (simp add: app_get_tasks_def get_tasks_def order_by_created_at_def sql_limit_def
        sql_offset_def Let_def)
  ultimately show ?thesis by simp
qed

text \<open>
  C6. \<^verbatim>\<open>GET /tasks\<close> is refused with FastAPI's request validation error (status 422)
  exactly when \<open>limit\<close> is greater than 20, and answers with a list of rows exactly when
  \<open>limit\<close> is at most 20: a larger limit is rejected, not clamped.
\<close>

theorem get_tasks_limit_ceiling:
  "(app_get_tasks db offset limit status = Inl RequestValidationError \<longleftrightarrow> 20 < limit)
   \<and> ((\<exists>rows. app_get_tasks db offset limit status = Inr rows) \<longleftrightarrow> limit \<le> 20)
   \<and> (20 < limit \<longleftrightarrow> status_code (projl (app_get_tasks db offset limit status)) = 422
        \<and> isl (app_get_tasks db offset limit status))"
  by (auto simp: app_get_tasks_def)

subsection \<open>Get by id\<close>

text \<open>
  C7. \<^verbatim>\<open>GET /tasks/{task_id}\<close> answers with a stored task that has the requested id exactly
  when the table holds such a task, and with the 404 \<^verbatim>\<open>HTTPException\<close> exactly when it
  holds none (an id never inserted, or one whose row was deleted); it ends in no other
  error.
\<close>

theorem get_task_found_or_404:
  "((\<exists>task. get_task task_id db = Inr task \<and> task \<in> set db \<and> id_field task = Some task_id)
      \<longleftrightarrow> Some task_id \<in> id_field ` set db)
   \<and> (get_task task_id db = Inl (HTTPException 404 ''Task not found'')
      \<longleftrightarrow> Some task_id \<notin> id_field ` set db)
   \<and> (isl (get_task task_id db) \<longleftrightarrow> Some task_id \<notin> id_field ` set db)"
proof (cases "find (\<lambda>t. id_field t = Some task_id) db")
  case None
  then have "Some task_id \<notin> id_field ` set db"
    by (simp add: find_id_None)
  with None show ?thesis
    by (simp add: get_task_def first_select_where_id)
next
  case (Some task)
  then have "task \<in> set db" "id_field task = Some task_id"
    using find_id_Some by blast+
  then have "Some task_id \<in> id_field ` set db"
    by force
  with Some \<open>task \<in> set db\<close> \<open>id_field task = Some task_id\<close> show ?thesis
    by (simp add: get_task_def first_select_where_id)
qed

subsection \<open>Full update\<close>

text \<open>A body with both fields is handed to the handler as it is; any other body is refused.\<close>

lemma app_put_task_valid:
  "app_put_task task_id \<lparr>u_title = Val s, u_completed = Val c\<rparr> db
     = update_task task_id \<lparr>ut_title = s, ut_completed = c\<rparr> db"
  by (simp add: app_put_task_def parse_UpdateTask_def)

text \<open>
  C4. \<^verbatim>\<open>PUT /tasks/{task_id}\<close> with a payload: when no stored task has the id, the handler
  raises the 404 \<^verbatim>\<open>HTTPException\<close>. Otherwise it returns the stored task with \<open>title\<close> and
  \<open>completed\<close> set to the payload's values, whatever they were before, and with \<open>id\<close> and
  \<open>created_at\<close> as stored; a lookup of the id then returns that task; the table keeps its
  length, every row keeps its id and created_at, the rows with the requested id carry the
  payload's title and completed, and every other row is untouched.
\<close>

theorem update_task_overwrites:
  "(Some task_id \<notin> id_field ` set db \<longrightarrow>
      update_task task_id updated_task db
        = Inl (HTTPException 404 ''Not Found: Requested task doesn't exist ''))
   \<and> (Some task_id \<in> id_field ` set db \<longrightarrow>
      (\<exists>old task db'.
         update_task task_id updated_task db = Inr (task, db')
         \<and> old \<in> set db \<and> id_field old = Some task_id
         \<and> id_field task = id_field old \<and> created_at task = created_at old
         \<and> title task = ut_title updated_task \<and> completed task = ut_completed updated_task
         \<and> get_task task_id db' = Inr task
         \<and> length db' = length db
         \<and> (\<forall>k<length db.
               id_field (db' ! k) = id_field (db ! k)
               \<and> created_at (db' ! k) = created_at (db ! k)
               \<and> (if id_field (db ! k) = Some task_id
                  then title (db' ! k) = ut_title updated_task
                       \<and> completed (db' ! k) = ut_completed updated_task
                  else db' ! k = db ! k))))"
proof (cases "find (\<lambda>t. id_field t = Some task_id) db")
  case None
  then have "Some task_id \<notin> id_field ` set db"
    by (simp add: find_id_None)
  with None show ?thesis
    by (simp add: update_task_def session_get_def)
next
  case (Some old)
  then have old: "old \<in> set db" "id_field old = Some task_id"
    using find_id_Some by blast+
  then have mem: "Some task_id \<in> id_field ` set db"
    by force
  define task where
    "task = old\<lparr>title := ut_title updated_task, completed := ut_completed updated_task\<rparr>"
  define db' where
    "db' = map (\<lambda>r. if id_field r = Some task_id
                    then r\<lparr>title := ut_title updated_task, completed := ut_completed updated_task\<rparr>
                    else r) db"
  have run: "update_task task_id updated_task db = Inr (task, db')"
    using Some old
    by (simp add: update_task_def session_get_def session_update_def task_def db'_def Let_def)
  have "find (\<lambda>t. id_field t = Some task_id) db' = Some task"
    using Some unfolding db'_def task_def
    by (induction db) (auto split: if_splits)
  then have get: "get_task task_id db' = Inr task"
    by (simp add: get_task_def first_select_where_id)
  have rows: "\<forall>k<length db.
               id_field (db' ! k) = id_field (db ! k)
               \<and> created_at (db' ! k) = created_at (db ! k)
               \<and> (if id_field (db ! k) = Some task_id
                  then title (db' ! k) = ut_title updated_task
                       \<and> completed (db' ! k) = ut_completed updated_task
                  else db' ! k = db ! k)"
    by (simp add: db'_def)
  have "length db' = length db"
    by (simp add: db'_def)
  with run old get rows mem show ?thesis
    by (auto simp: task_def)
qed

theorem update_task_overwrites_witness:
  "update_task 7 \<lparr>ut_title = ''walk dog'', ut_completed = True\<rparr>
      [\<lparr>id_field = Some 1, title = ''buy milk'', completed = False, created_at = 739000\<rparr>,
       \<lparr>id_field = Some 2, title = ''call mum'', completed = False, created_at = 739001\<rparr>]
     = Inl (HTTPException 404 ''Not Found: Requested task doesn't exist '')
   \<and> update_task 2 \<lparr>ut_title = ''walk dog'', ut_completed = True\<rparr>
      [\<lparr>id_field = Some 1, title = ''buy milk'', completed = False, created_at = 739000\<rparr>,
       \<lparr>id_field = Some 2, title = ''call mum'', completed = False, created_at = 739001\<rparr>]
     = Inr (\<lparr>id_field = Some 2, title = ''walk dog'', completed = True, created_at = 739001\<rparr>,
            [\<lparr>id_field = Some 1, title = ''buy milk'', completed = False, created_at = 739000\<rparr>,
             \<lparr>id_field = Some 2, title = ''walk dog'', completed = True, created_at = 739001\<rparr>])"
proof -
  let ?db = "[\<lparr>id_field = Some 1, title = ''buy milk'', completed = False, created_at = 739000\<rparr>,
       \<lparr>id_field = Some 2, title = ''call mum'', completed = False, created_at = 739001\<rparr>]"
  let ?u = "\<lparr>ut_title = ''walk dog'', ut_completed = True\<rparr>"
  have absent: "Some 7 \<notin> id_field ` set ?db" by simp
  have present: "Some 2 \<in> id_field ` set ?db" by simp
  from update_task_overwrites [of 7 ?db ?u] absent
  have missing:
    "update_task 7 ?u ?db = Inl (HTTPException 404 ''Not Found: Requested task doesn't exist '')"
    by blast
  from update_task_overwrites [of 2 ?db ?u] present
  have found: "\<exists>task db'. update_task 2 ?u ?db = Inr (task, db')
          \<and> title task = ''walk dog'' \<and> completed task \<and> get_task 2 db' = Inr task"
    by auto
  have "update_task 2 ?u ?db
     = Inr (\<lparr>id_field = Some 2, title = ''walk dog'', completed = True, created_at = 739001\<rparr>,
            [\<lparr>id_field = Some 1, title = ''buy milk'', completed = False, created_at = 739000\<rparr>,
             \<lparr>id_field = Some 2, title = ''walk dog'', completed = True, created_at = 739001\<rparr>])"
    by (simp add: update_task_def session_get_def session_update_def Let_def)
  with missing found show ?thesis by simp
qed

subsection \<open>Partial update\<close>

text \<open>
  C2 (the code departs from the claim). \<^verbatim>\<open>PATCH /tasks/{task_id}\<close> reads its body as an
  \<^verbatim>\<open>UpdateTask\<close>, whose \<^verbatim>\<open>title\<close> is required. A body that gives \<^verbatim>\<open>completed\<close> only is
  refused with the request validation error before the handler runs, for every id and
  every table: \<open>completed\<close> is not overwritten and the table stays as it was.
\<close>

theorem patch_completed_only_rejected:
  "app_patch_task task_id db (Some \<lparr>u_title = Absent, u_completed = Val c\<rparr>)
     = Inl RequestValidationError
   \<and> table_after (PatchTask task_id (Some \<lparr>u_title = Absent, u_completed = Val c\<rparr>)) db = db"
  by (simp add: app_patch_task_def parse_UpdateTask_def)

text \<open>
  C3 (the code departs from the claim). \<^verbatim>\<open>PATCH /tasks/{task_id}\<close> without a body calls the
  handler with \<^verbatim>\<open>updated_task = None\<close>. When a task with the id is stored, the handler
  reads \<^verbatim>\<open>updated_task.title\<close> and ends in \<^verbatim>\<open>AttributeError\<close>; it returns no task and
  raises no validation error. When none is stored it raises the 404 \<^verbatim>\<open>HTTPException\<close>.
\<close>

theorem patch_without_body_faults:
  "app_patch_task task_id db None =
     (if Some task_id \<in> id_field ` set db then Inl AttributeError
      else Inl (HTTPException 404 ''Not Found: Requested task doesn't exist''))"
proof (cases "find (\<lambda>t. id_field t = Some task_id) db")
  case None
  then have "Some task_id \<notin> id_field ` set db"
    by (simp add: find_id_None)
  with None show ?thesis
    by (simp add: app_patch_task_def partial_update_def session_get_def)
next
  case (Some task)
  then have "Some task_id \<in> id_field ` set db"
    using find_id_Some by force
  with Some show ?thesis
    by (simp add: app_patch_task_def partial_update_def session_get_def)
qed

text \<open>
  What \<^verbatim>\<open>PATCH\<close> does accept is a body with both fields, and then it does what \<^verbatim>\<open>PUT\<close>
  does up to the wording of the 404 detail.
\<close>

lemma app_patch_task_valid:
  "Some task_id \<in> id_field ` set db \<Longrightarrow>
   app_patch_task task_id db (Some \<lparr>u_title = Val s, u_completed = Val c\<rparr>)
     = update_task task_id \<lparr>ut_title = s, ut_completed = c\<rparr> db"
  by (auto simp: app_patch_task_def parse_UpdateTask_def partial_update_def update_task_def
      session_get_def Let_def find_id_None split: option.splits)

subsection \<open>Delete\<close>

text \<open>
  C8. \<^verbatim>\<open>DELETE /tasks/{task_id}\<close>: when no stored task has the id, the handler raises the 404
  \<^verbatim>\<open>HTTPException\<close>. Otherwise it returns the confirmation \<^verbatim>\<open>{"task deleted", True}\<close> and
  leaves the table without the rows of that id and with every other row, in the same
  order; a lookup of the deleted id on the new table raises 404, and a lookup of any other
  id answers as it did before.
\<close>

theorem delete_task_removes:
  "(Some task_id \<notin> id_field ` set db \<longrightarrow>
      delete_task task_id db
        = Inl (HTTPException 404 ''Not Found: Requested task doesn't exist''))
   \<and> (Some task_id \<in> id_field ` set db \<longrightarrow>
      (\<exists>db'. delete_task task_id db = Inr ({PyStr ''task deleted'', PyBool True}, db')
         \<and> get_task task_id db' = Inl (HTTPException 404 ''Task not found'')
         \<and> db' = filter (\<lambda>t. id_field t \<noteq> Some task_id) db
         \<and> (\<forall>other. other \<noteq> task_id \<longrightarrow> get_task other db' = get_task other db)))"
proof (cases "find (\<lambda>t. id_field t = Some task_id) db")
  case None
  then have "Some task_id \<notin> id_field ` set db"
    by (simp add: find_id_None)
  with None show ?thesis
    by (simp add: delete_task_def first_select_where_id)
next
  case (Some task)
  then have task: "task \<in> set db" "id_field task = Some task_id"
    using find_id_Some by blast+
  then have mem: "Some task_id \<in> id_field ` set db"
    by force
  define db' where "db' = filter (\<lambda>t. id_field t \<noteq> Some task_id) db"
  have run: "delete_task task_id db = Inr ({PyStr ''task deleted'', PyBool True}, db')"
    using Some task
    by (simp add: delete_task_def first_select_where_id session_delete_def db'_def)
  have "Some task_id \<notin> id_field ` set db'"
    by (auto simp: db'_def)
  then have gone: "get_task task_id db' = Inl (HTTPException 404 ''Task not found'')"
    by (simp add: get_task_def first_select_where_id find_id_None [symmetric])
  have others: "get_task other db' = get_task other db" if "other \<noteq> task_id" for other
  proof -
    have "filter (\<lambda>t. id_field t = Some other) db' = filter (\<lambda>t. id_field t = Some other) db"
      unfolding db'_def using that by (induction db) auto
    then show ?thesis
      by (simp add: get_task_def select_where_id_def)
  qed
  from run gone others mem show ?thesis
    by (simp add: db'_def)
qed

theorem delete_task_removes_witness:
  "delete_task 7
      [\<lparr>id_field = Some 1, title = ''buy milk'', completed = False, created_at = 739000\<rparr>,
       \<lparr>id_field = Some 2, title = ''call mum'', completed = False, created_at = 739001\<rparr>]
     = Inl (HTTPException 404 ''Not Found: Requested task doesn't exist'')
   \<and> delete_task 1
      [\<lparr>id_field = Some 1, title = ''buy milk'', completed = False, created_at = 739000\<rparr>,
       \<lparr>id_field = Some 2, title = ''call mum'', completed = False, created_at = 739001\<rparr>]
     = Inr ({PyStr ''task deleted'', PyBool True},
            [\<lparr>id_field = Some 2, title = ''call mum'', completed = False, created_at = 739001\<rparr>])
   \<and> get_task 1
      [\<lparr>id_field = Some 2, title = ''call mum'', completed = False, created_at = 739001\<rparr>]
     = Inl (HTTPException 404 ''Task not found'')"
proof -
  let ?db = "[\<lparr>id_field = Some 1, title = ''buy milk'', completed = False, created_at = 739000\<rparr>,
       \<lparr>id_field = Some 2, title = ''call mum'', completed = False, created_at = 739001\<rparr>]"
  have absent: "Some 7 \<notin> id_field ` set ?db" by simp
  have present: "Some 1 \<in> id_field ` set ?db" by simp
  from delete_task_removes [of 7 ?db] absent
  have missing:
    "delete_task 7 ?db = Inl (HTTPException 404 ''Not Found: Requested task doesn't exist'')"
    by blast
  from delete_task_removes [of 1 ?db] present
  have "\<exists>db'. delete_task 1 ?db = Inr ({PyStr ''task deleted'', PyBool True}, db')
          \<and> get_task 1 db' = Inl (HTTPException 404 ''Task not found'')
          \<and> db' = filter (\<lambda>t. id_field t \<noteq> Some 1) ?db"
    by blast
  with missing show ?thesis by simp
qed

subsection \<open>Titles\<close>

lemma create_task_titles:
  assumes "create_task task db = Inr (row, db')"
    and "list_all (\<lambda>t. title t \<noteq> []) db" and "tc_title task \<noteq> []"
  shows "list_all (\<lambda>t. title t \<noteq> []) db'"
  using assms
  by (auto simp: create_task_def from_orm_def session_insert_def Let_def
      split: option.splits)

lemma update_task_titles:
  assumes "update_task task_id u db = Inr (task, db')"
    and "list_all (\<lambda>t. title t \<noteq> []) db" and "ut_title u \<noteq> []"
  shows "list_all (\<lambda>t. title t \<noteq> []) db'"
  using assms
  by (auto simp: update_task_def session_update_def Let_def list_all_iff split: option.splits)

lemma partial_update_titles:
  assumes "partial_update task_id db (Some u) = Inr (task, db')"
    and "list_all (\<lambda>t. title t \<noteq> []) db" and "ut_title u \<noteq> []"
  shows "list_all (\<lambda>t. title t \<noteq> []) db'"
  using assms
  by (auto simp: partial_update_def session_update_def Let_def list_all_iff split: option.splits)

lemma partial_update_no_body: "partial_update task_id db None \<noteq> Inr res"
  by (simp add: partial_update_def split: option.splits)

lemma parse_TaskCreate_title:
  "parse_TaskCreate body = Inr task \<Longrightarrow> b_title body = Val (tc_title task)"
  by (auto simp: parse_TaskCreate_def split: json_field.splits)

lemma parse_UpdateTask_title:
  "parse_UpdateTask body = Inr u \<Longrightarrow> u_title body = Val (ut_title u)"
  by (auto simp: parse_UpdateTask_def split: json_field.splits)

text \<open>
  C10 as stated fails: \<^verbatim>\<open>title: str\<close> has no length constraint, so a create request with
  the empty title passes validation and its row is stored.
\<close>

theorem empty_title_is_stored:
  "table_after
     (PostTasks \<lparr>b_title = Val [], b_completed = Val False, b_created_at = Val 739000\<rparr>) []
   = [\<lparr>id_field = Some 1, title = [], completed = False, created_at = 739000\<rparr>]"
  by (simp add: app_post_tasks_def parse_TaskCreate_def create_task_def from_orm_def
      session_insert_def next_rowid_def Let_def)

text \<open>
  C10, amended. The create operation requires a title string and accepts the empty one.
  Every one of the six operations keeps the property that no stored title is empty
  provided the title its payload carries, if it carries one, is not the empty string.
\<close>

theorem nonempty_titles_preserved:
  assumes "list_all (\<lambda>t. title t \<noteq> []) db" and "payload_title r \<noteq> Some []"
  shows "list_all (\<lambda>t. title t \<noteq> []) (table_after r db)"
proof (cases r)
  case (PostTasks body)
  show ?thesis
  proof (cases "app_post_tasks body db")
    case (Inl e)
    with PostTasks assms show ?thesis by simp
  next
    case (Inr res)
    obtain row db' where res: "res = (row, db')" by (cases res)
    from Inr res obtain task where parsed: "parse_TaskCreate body = Inr task"
      and made: "create_task task db = Inr (row, db')"
      by (auto simp: app_post_tasks_def split: sum.splits)
    from parsed assms(2) PostTasks have "tc_title task \<noteq> []"
      by (auto dest: parse_TaskCreate_title)
    with made assms(1) have "list_all (\<lambda>t. title t \<noteq> []) db'"
      by (rule create_task_titles)
    with PostTasks Inr res show ?thesis by simp
  qed
next
  case (GetTasks offset limit status)
  with assms show ?thesis by simp
next
  case (GetTask task_id)
  with assms show ?thesis by simp
next
  case (PutTask task_id body)
  show ?thesis
  proof (cases "app_put_task task_id body db")
    case (Inl e)
    with PutTask assms show ?thesis by simp
  next
    case (Inr res)
    obtain task db' where res: "res = (task, db')" by (cases res)
    from Inr res obtain u where parsed: "parse_UpdateTask body = Inr u"
      and made: "update_task task_id u db = Inr (task, db')"
      by (auto simp: app_put_task_def split: sum.splits)
    from parsed assms(2) PutTask have "ut_title u \<noteq> []"
      by (auto dest: parse_UpdateTask_title)
    with made assms(1) have "list_all (\<lambda>t. title t \<noteq> []) db'"
      by (rule update_task_titles)
    with PutTask Inr res show ?thesis by simp
  qed
next
  case (PatchTask task_id body)
  show ?thesis
  proof (cases "app_patch_task task_id db body")
    case (Inl e)
    with PatchTask assms show ?thesis by simp
  next
    case (Inr res)
    obtain task db' where res: "res = (task, db')" by (cases res)
    from Inr res obtain b u where body: "body = Some b"
      and parsed: "parse_UpdateTask b = Inr u"
      and made: "partial_update task_id db (Some u) = Inr (task, db')"
      by (auto simp: app_patch_task_def partial_update_no_body split: sum.splits option.splits)
    from parsed assms(2) PatchTask body have "ut_title u \<noteq> []"
      by (auto dest: parse_UpdateTask_title)
    with made assms(1) have "list_all (\<lambda>t. title t \<noteq> []) db'"
      by (rule partial_update_titles)
    with PatchTask Inr res show ?thesis by simp
  qed
next
  case (DeleteTask task_id)
  with assms(1) show ?thesis
    by (auto simp: delete_task_def session_delete_def list_all_iff split: option.splits)
qed

theorem nonempty_titles_preserved_witness:
  "list_all (\<lambda>t. title t \<noteq> [])
     [\<lparr>id_field = Some 1, title = ''buy milk'', completed = False, created_at = 739000\<rparr>]
   \<and> payload_title (PutTask 1 \<lparr>u_title = Val ''walk dog'', u_completed = Val True\<rparr>) \<noteq> Some []
   \<and> table_after (PutTask 1 \<lparr>u_title = Val ''walk dog'', u_completed = Val True\<rparr>)
       [\<lparr>id_field = Some 1, title = ''buy milk'', completed = False, created_at = 739000\<rparr>]
     = [\<lparr>id_field = Some 1, title = ''walk dog'', completed = True, created_at = 739000\<rparr>]
   \<and> list_all (\<lambda>t. title t \<noteq> [])
       (table_after (PutTask 1 \<lparr>u_title = Val ''walk dog'', u_completed = Val True\<rparr>)
          [\<lparr>id_field = Some 1, title = ''buy milk'', completed = False, created_at = 739000\<rparr>])"
proof -
  let ?db = "[\<lparr>id_field = Some 1, title = ''buy milk'', completed = False, created_at = 739000\<rparr>]"
  let ?r = "PutTask 1 \<lparr>u_title = Val ''walk dog'', u_completed = Val True\<rparr>"
  have stored: "list_all (\<lambda>t. title t \<noteq> []) ?db" by simp
  have carried: "payload_title ?r \<noteq> Some []" by simp
  have after: "table_after ?r ?db
     = [\<lparr>id_field = Some 1, title = ''walk dog'', completed = True, created_at = 739000\<rparr>]"
    by (simp add: app_put_task_def parse_UpdateTask_def update_task_def session_get_def
        session_update_def Let_def)
  from nonempty_titles_preserved [OF stored carried] stored carried after show ?thesis
    by simp
qed

end
